theory Spec2Isabelle
  imports Main
begin

section \<open>Python helpers\<close>

text \<open>
  Python's slice \<^verbatim>\<open>xs[lo:hi]\<close> on a sequence: a negative bound counts from the end,
  and both bounds are clamped to the sequence.
\<close>

definition py_bound :: "nat \<Rightarrow> int \<Rightarrow> nat" where
  "py_bound n i = (if i < 0 then nat (max 0 (int n + i)) else min (nat i) n)"

definition py_slice :: "'a list \<Rightarrow> int \<Rightarrow> int \<Rightarrow> 'a list" where
  "py_slice xs lo hi =
     (let l = py_bound (length xs) lo; h = py_bound (length xs) hi
      in take (h - l) (drop l xs))"

text \<open>\<^verbatim>\<open>xs[:hi]\<close>\<close>

definition py_slice_to :: "'a list \<Rightarrow> int \<Rightarrow> 'a list" where
  "py_slice_to xs hi = py_slice xs 0 hi"

text \<open>\<^verbatim>\<open>sep.join(xs)\<close> for a one-character separator.\<close>

fun join :: "char \<Rightarrow> string list \<Rightarrow> string" where
  "join sep [] = []"
| "join sep [x] = x"
| "join sep (x # y # ys) = x @ sep # join sep (y # ys)"

section \<open>The trigger heuristic\<close>

text \<open>
  \<^verbatim>\<open>ShouldUseClang( start_column )\<close>; the text of the current line
  (\<^verbatim>\<open>vim.current.line\<close>) is the first argument.
\<close>

definition ShouldUseClang :: "string \<Rightarrow> int \<Rightarrow> bool" where
  "ShouldUseClang line start_column =
     (let previous_char_index = start_column - 1 in
      if length line = 0 \<or> previous_char_index < 0 \<or>
         previous_char_index \<ge> int (length line) then False
      else if line ! nat previous_char_index = CHR ''.'' then True
      else if previous_char_index - 1 < 0 then False
      else
        let two_previous_chars = py_slice line (previous_char_index - 1) start_column
        in if two_previous_chars = ''->'' \<or> two_previous_chars = ''::'' then True
           else False)"

section \<open>Data\<close>

text \<open>
  The engine's diagnostic object, read-only here. The source's attribute names end in an
  underscore (\<^verbatim>\<open>filename_\<close>, \<^verbatim>\<open>line_number_\<close>, \<^verbatim>\<open>column_number_\<close>,
  \<^verbatim>\<open>text_\<close>, \<^verbatim>\<open>long_formatted_text_\<close>, \<^verbatim>\<open>kind_\<close>).
\<close>

record Diagnostic =
  filename :: string
  line_number :: int
  column_number :: int
  diag_text :: string
  long_formatted_text :: string
  kind :: string

text \<open>The engine's completion candidate; its accessor methods are fields here.\<close>

record CompletionData =
  TextToInsertInBuffer :: string
  MainCompletionText :: string
  ExtraMenuInfo :: string
  completion_kind :: string
  DetailedInfoForPreviewWindow :: string

text \<open>The dictionaries handed to the editor, with their fixed keys.\<close>

record completion_dict =
  word :: string
  abbr :: string
  menu :: string
  ckind :: string
  info :: string
  dup :: int

record diagnostic_dict =
  bufnr :: int
  lnum :: int
  col :: int
  dtext :: string
  dtype :: string
  valid :: int

text \<open>
  \<^verbatim>\<open>ycm_core.UnsavedFile\<close> with \<^verbatim>\<open>contents_\<close>, \<^verbatim>\<open>length_\<close> and
  \<^verbatim>\<open>filename_\<close>.
\<close>

record UnsavedFile =
  uf_contents :: string
  uf_length :: int
  uf_filename :: string

text \<open>An editor buffer: its number, its name and its lines.\<close>

record buffer =
  buf_number :: int
  buf_name :: string
  buf_lines :: "string list"

text \<open>
  A future is identified with the asynchronous engine call that returned it, together
  with the arguments of that call.
\<close>

datatype future =
    UpdateTranslationUnitAsync string "UnsavedFile list" "string list"
  | CandidatesForQueryAndLocationInFileAsync
      string string int int "UnsavedFile list" "string list"

datatype py_error = AttributeError

text \<open>
  An instance attribute that \<^verbatim>\<open>__init__\<close> may or may not have assigned; reading an
  unassigned attribute raises \<^verbatim>\<open>AttributeError\<close>.
\<close>

datatype 'a attribute = Unassigned | Assigned 'a

type_synonym diag_structure = "string \<rightharpoonup> (int \<rightharpoonup> Diagnostic list)"

text \<open>
  What the editor host, the flags collaborator and the engine answer when asked.
  \<^verbatim>\<open>FlagsForFile\<close> answers the empty list when it has no flags;
  \<^verbatim>\<open>GetUnsavedBuffers\<close> is the sequence of buffers
  \<^verbatim>\<open>vimsupport.GetUnsavedBuffers()\<close> yields; \<^verbatim>\<open>getbufvar_ft\<close> the filetype of
  a buffer number; \<^verbatim>\<open>bufnr_of\<close> the buffer number the editor resolves for a filename;
  \<^verbatim>\<open>window_cursor\<close> is \<^verbatim>\<open>vim.current.window.cursor\<close> and
  \<^verbatim>\<open>CurrentLineAndColumn\<close> the 0-based pair of \<^verbatim>\<open>vimsupport\<close>.
\<close>

record host =
  current_buffer_name :: string
  NumLinesInBuffer :: int
  window_cursor :: "int \<times> int"
  CurrentLineAndColumn :: "int \<times> int"
  completion_start_column :: int
  GetUnsavedBuffers :: "buffer list"
  getbufvar_ft :: "int \<Rightarrow> string"
  bufnr_of :: "string \<Rightarrow> int"
  UpdatingTranslationUnit :: "string \<Rightarrow> bool"
  FlagsForFile :: "string \<Rightarrow> string list"
  ResultsReady :: "future \<Rightarrow> bool"
  GetResults :: "future \<Rightarrow> CompletionData list"
  DiagnosticsForFile :: "string \<Rightarrow> Diagnostic list"
  MAX_DIAGNOSTICS_TO_DISPLAY :: int

text \<open>
  The completer object, followed by the effects it has had on its collaborators: the
  messages posted with \<^verbatim>\<open>PostVimMessage\<close>, the texts shown with \<^verbatim>\<open>EchoText\<close>
  and the asynchronous calls dispatched to the engine, each in order.
\<close>

record ClangCompleter =
  contents_holder :: "string list"
  filename_holder :: "string list"
  last_prepared_diagnostics :: "diagnostic_dict list"
  parse_future :: "future option"
  completions_future :: "future option attribute"
  diagnostic_store :: "diag_structure attribute"
  posted :: "string list"
  echoed :: "string list"
  dispatched :: "future list"

text \<open>
  \<^verbatim>\<open>__init__\<close> assigns neither \<^verbatim>\<open>completions_future\<close> nor
  \<^verbatim>\<open>diagnostic_store\<close>, and does not call the initialiser of the base class.
\<close>

definition init :: ClangCompleter where
  "init = \<lparr>contents_holder = [], filename_holder = [], last_prepared_diagnostics = [],
           parse_future = None, completions_future = Unassigned,
           diagnostic_store = Unassigned, posted = [], echoed = [], dispatched = []\<rparr>"

definition PostVimMessage :: "string \<Rightarrow> ClangCompleter \<Rightarrow> ClangCompleter" where
  "PostVimMessage m s = s\<lparr>posted := posted s @ [m]\<rparr>"

definition EchoText :: "string \<Rightarrow> ClangCompleter \<Rightarrow> ClangCompleter" where
  "EchoText m s = s\<lparr>echoed := echoed s @ [m]\<rparr>"

section \<open>Snapshots of the unsaved buffers\<close>

definition CLANG_FILETYPES :: "string set" where
  "CLANG_FILETYPES = {''c'', ''cpp'', ''objc'', ''objcpp''}"

definition ClangAvailableForBuffer :: "host \<Rightarrow> buffer \<Rightarrow> bool" where
  "ClangAvailableForBuffer h buffer_object =
     (let filetype = getbufvar_ft h (buf_number buffer_object)
      in filetype \<in> CLANG_FILETYPES)"

text \<open>
  The loop of \<^verbatim>\<open>GetUnsavedFilesVector\<close> over the buffers; the accumulator is
  \<^verbatim>\<open>files\<close>, \<^verbatim>\<open>contents_holder\<close> and \<^verbatim>\<open>filename_holder\<close>.
\<close>

fun unsaved_loop ::
  "host \<Rightarrow> buffer list \<Rightarrow> UnsavedFile list \<times> string list \<times> string list \<Rightarrow>
   UnsavedFile list \<times> string list \<times> string list" where
  "unsaved_loop h [] acc = acc"
| "unsaved_loop h (b # bs) (files, ch, fh) =
     (if \<not> ClangAvailableForBuffer h b then unsaved_loop h bs (files, ch, fh)
      else
        let contents = join (CHR 0x0A) (buf_lines b);
            name = buf_name b
        in if contents = [] \<or> name = [] then unsaved_loop h bs (files, ch, fh)
           else
             let ch' = ch @ [contents];
                 fh' = fh @ [name];
                 unsaved_file = \<lparr>uf_contents = last ch',
                                 uf_length = int (length (last ch')),
                                 uf_filename = last fh'\<rparr>
             in unsaved_loop h bs (files @ [unsaved_file], ch', fh'))"

definition GetUnsavedFilesVector ::
  "host \<Rightarrow> ClangCompleter \<Rightarrow> UnsavedFile list \<times> ClangCompleter" where
  "GetUnsavedFilesVector h s =
     (let (files, ch, fh) = unsaved_loop h (GetUnsavedBuffers h) ([], [], [])
      in (files, s\<lparr>contents_holder := ch, filename_holder := fh\<rparr>))"

section \<open>The completion path\<close>

text \<open>
  \<^verbatim>\<open>CandidatesForQueryAsync\<close> has no return value on any path; the result here is
  the completer after the call.
\<close>

definition CandidatesForQueryAsync :: "host \<Rightarrow> string \<Rightarrow> ClangCompleter \<Rightarrow> ClangCompleter" where
  "CandidatesForQueryAsync h query s =
     (let fname = current_buffer_name h in
      if UpdatingTranslationUnit h fname then
        (PostVimMessage ''Still parsing file, no completions yet.'' s)
          \<lparr>completions_future := Assigned None\<rparr>
      else
        let flags = FlagsForFile h fname in
        if flags = [] then
          (PostVimMessage ''Still no compile flags, no completions yet.'' s)
            \<lparr>completions_future := Assigned None\<rparr>
        else
          let (files, s1) = (if query = [] then GetUnsavedFilesVector h s else ([], s));
              line = fst (window_cursor h);
              column = completion_start_column h + 1;
              fut = CandidatesForQueryAndLocationInFileAsync
                      query fname line column files flags
          in s1\<lparr>completions_future := Assigned (Some fut),
                 dispatched := dispatched s1 @ [fut]\<rparr>)"

definition CompletionDataToDict :: "CompletionData \<Rightarrow> completion_dict" where
  "CompletionDataToDict completion_data =
     \<lparr>word = TextToInsertInBuffer completion_data,
      abbr = MainCompletionText completion_data,
      menu = ExtraMenuInfo completion_data,
      ckind = completion_kind completion_data,
      info = DetailedInfoForPreviewWindow completion_data,
      dup = 1\<rparr>"

definition CandidatesFromStoredRequest ::
  "host \<Rightarrow> ClangCompleter \<Rightarrow> py_error + completion_dict list \<times> ClangCompleter" where
  "CandidatesFromStoredRequest h s =
     (case completions_future s of
        Unassigned \<Rightarrow> Inl AttributeError
      | Assigned None \<Rightarrow> Inr ([], s)
      | Assigned (Some fut) \<Rightarrow>
          let results = map CompletionDataToDict (GetResults h fut)
          in if results = []
             then Inr (results, PostVimMessage ''No completions found; errors in the file?'' s)
             else Inr (results, s))"

section \<open>The parse and diagnostics path\<close>

definition OnFileReadyToParse :: "host \<Rightarrow> ClangCompleter \<Rightarrow> ClangCompleter" where
  "OnFileReadyToParse h s =
     (if NumLinesInBuffer h < 5 then s\<lparr>parse_future := None\<rparr>
      else
        let fname = current_buffer_name h in
        if UpdatingTranslationUnit h fname then s
        else
          let flags = FlagsForFile h fname in
          if flags = [] then s\<lparr>parse_future := None\<rparr>
          else
            let (files, s1) = GetUnsavedFilesVector h s;
                fut = UpdateTranslationUnitAsync fname files flags
            in s1\<lparr>parse_future := Some fut, dispatched := dispatched s1 @ [fut]\<rparr>)"

definition DiagnosticsForCurrentFileReady :: "host \<Rightarrow> ClangCompleter \<Rightarrow> bool" where
  "DiagnosticsForCurrentFileReady h s =
     (case parse_future s of None \<Rightarrow> False | Some fut \<Rightarrow> ResultsReady h fut)"

definition DiagnosticToDict :: "host \<Rightarrow> Diagnostic \<Rightarrow> diagnostic_dict" where
  "DiagnosticToDict h diagnostic =
     \<lparr>bufnr = bufnr_of h (filename diagnostic),
      lnum = line_number diagnostic,
      col = column_number diagnostic,
      dtext = diag_text diagnostic,
      dtype = kind diagnostic,
      valid = 1\<rparr>"

text \<open>
  \<^verbatim>\<open>d[k]\<close> on a \<^verbatim>\<open>defaultdict\<close>: a missing key is inserted with the default
  value, which is returned; the result is the value and the dictionary afterwards.
\<close>

definition defaultdict_getitem :: "'v \<Rightarrow> ('k \<rightharpoonup> 'v) \<Rightarrow> 'k \<Rightarrow> 'v \<times> ('k \<rightharpoonup> 'v)" where
  "defaultdict_getitem dflt m k =
     (case m k of None \<Rightarrow> (dflt, m(k \<mapsto> dflt)) | Some v \<Rightarrow> (v, m))"

text \<open>
  \<^verbatim>\<open>structure[ f ][ l ]\<close> on the nested \<^verbatim>\<open>defaultdict\<close>: the list found and the
  structure afterwards (the inner dictionary is shared with the outer one, so an
  insertion into it shows in the structure).
\<close>

definition structure_getitem ::
  "diag_structure \<Rightarrow> string \<Rightarrow> int \<Rightarrow> Diagnostic list \<times> diag_structure" where
  "structure_getitem structure f l =
     (let (inner, structure1) = defaultdict_getitem Map.empty structure f;
          (ds, inner1) = defaultdict_getitem [] inner l
      in (ds, structure1(f \<mapsto> inner1)))"

text \<open>\<^verbatim>\<open>structure[ f ][ l ].append( d )\<close>\<close>

definition structure_append ::
  "diag_structure \<Rightarrow> string \<Rightarrow> int \<Rightarrow> Diagnostic \<Rightarrow> diag_structure" where
  "structure_append structure f l d =
     (let (inner, structure1) = defaultdict_getitem Map.empty structure f;
          (ds, inner1) = defaultdict_getitem [] inner l
      in structure1(f \<mapsto> inner1(l \<mapsto> ds @ [d])))"

fun structure_loop :: "Diagnostic list \<Rightarrow> diag_structure \<Rightarrow> diag_structure" where
  "structure_loop [] structure = structure"
| "structure_loop (diagnostic # rest) structure =
     structure_loop rest
       (structure_append structure (filename diagnostic) (line_number diagnostic) diagnostic)"

definition DiagnosticsToDiagStructure :: "Diagnostic list \<Rightarrow> diag_structure" where
  "DiagnosticsToDiagStructure diagnostics = structure_loop diagnostics Map.empty"

definition GetDiagnosticsForCurrentFile ::
  "host \<Rightarrow> ClangCompleter \<Rightarrow> diagnostic_dict list \<times> ClangCompleter" where
  "GetDiagnosticsForCurrentFile h s =
     (if DiagnosticsForCurrentFileReady h s then
        let diagnostics = DiagnosticsForFile h (current_buffer_name h);
            s1 = s\<lparr>diagnostic_store := Assigned (DiagnosticsToDiagStructure diagnostics)\<rparr>;
            s2 = s1\<lparr>last_prepared_diagnostics :=
                      map (DiagnosticToDict h)
                        (py_slice_to diagnostics (MAX_DIAGNOSTICS_TO_DISPLAY h))\<rparr>;
            s3 = s2\<lparr>parse_future := None\<rparr>
        in (last_prepared_diagnostics s3, s3)
      else (last_prepared_diagnostics s, s))"

text \<open>
  The scan of \<^verbatim>\<open>ShowDetailedDiagnostic\<close>; the accumulator is
  \<^verbatim>\<open>closest_diagnostic\<close> and \<^verbatim>\<open>distance_to_closest_diagnostic\<close>.
\<close>

fun closest_loop ::
  "int \<Rightarrow> Diagnostic list \<Rightarrow> Diagnostic option \<times> int \<Rightarrow> Diagnostic option \<times> int" where
  "closest_loop current_column [] acc = acc"
| "closest_loop current_column (diagnostic # rest) (closest, dist) =
     (let distance = \<bar>current_column - column_number diagnostic\<bar>
      in if distance < dist
         then closest_loop current_column rest (Some diagnostic, distance)
         else closest_loop current_column rest (closest, dist))"

text \<open>
  The lookup in \<^verbatim>\<open>diagnostic_store\<close> happens first and stays in the completer also
  when the call goes on to raise; an error result carries no completer.
\<close>

definition ShowDetailedDiagnostic :: "host \<Rightarrow> ClangCompleter \<Rightarrow> py_error + ClangCompleter" where
  "ShowDetailedDiagnostic h s =
     (let current_line = fst (CurrentLineAndColumn h) + 1;
          current_column = snd (CurrentLineAndColumn h) + 1;
          current_file = current_buffer_name h
      in case diagnostic_store s of
           Unassigned \<Rightarrow> Inl AttributeError
         | Assigned store \<Rightarrow>
             let (diagnostics, store1) = structure_getitem store current_file current_line;
                 s1 = s\<lparr>diagnostic_store := Assigned store1\<rparr>
             in if diagnostics = []
                then Inr (PostVimMessage ''No diagnostic for current line!'' s1)
                else
                  case fst (closest_loop current_column diagnostics (None, 999)) of
                    None \<Rightarrow> Inl AttributeError
                  | Some closest_diagnostic \<Rightarrow>
                      Inr (EchoText (long_formatted_text closest_diagnostic) s1))"

text \<open>
  The value of \<^verbatim>\<open>self.diagnostic_store[ f ][ l ]\<close>, the lookup
  \<^verbatim>\<open>ShowDetailedDiagnostic\<close> makes, without the completer it leaves behind.
\<close>

definition lookup_index :: "ClangCompleter \<Rightarrow> string \<Rightarrow> int \<Rightarrow> py_error + Diagnostic list" where
  "lookup_index s f l =
     (case diagnostic_store s of
        Unassigned \<Rightarrow> Inl AttributeError
      | Assigned store \<Rightarrow> Inr (fst (structure_getitem store f l)))"

section \<open>The specification's reading of the snapshot builder\<close>

text \<open>
  A buffer qualifies when its filetype is supported, its lines joined with newlines are
  not empty and its name is not empty; its snapshot holds the name and the joined lines.
\<close>

definition spec_qualifies :: "host \<Rightarrow> buffer \<Rightarrow> bool" where
  "spec_qualifies h b =
     (getbufvar_ft h (buf_number b) \<in> {''c'', ''cpp'', ''objc'', ''objcpp''} \<and>
      join (CHR 0x0A) (buf_lines b) \<noteq> [] \<and> buf_name b \<noteq> [])"

definition spec_snapshot :: "buffer \<Rightarrow> UnsavedFile" where
  "spec_snapshot b =
     \<lparr>uf_contents = join (CHR 0x0A) (buf_lines b),
      uf_length = int (length (join (CHR 0x0A) (buf_lines b))),
      uf_filename = buf_name b\<rparr>"

section \<open>Example inputs\<close>

definition ex_buffers :: "buffer list" where
  "ex_buffers =
     [\<lparr>buf_number = 1, buf_name = ''a.cpp'', buf_lines = [''int x;'', ''x.'']\<rparr>,
      \<lparr>buf_number = 2, buf_name = ''b.py'', buf_lines = [''pass'']\<rparr>,
      \<lparr>buf_number = 3, buf_name = [], buf_lines = [''int y;'']\<rparr>,
      \<lparr>buf_number = 4, buf_name = ''c.c'', buf_lines = [[]]\<rparr>,
      \<lparr>buf_number = 5, buf_name = ''d.c'', buf_lines = [[], []]\<rparr>]"

definition ex_ft :: "int \<Rightarrow> string" where
  "ex_ft n = (if n = 1 then ''cpp'' else if n = 2 then ''python'' else ''c'')"

definition ex_flags :: "string \<Rightarrow> string list" where
  "ex_flags f = [''-x'', ''c++'']"

definition no_flags :: "string \<Rightarrow> string list" where
  "no_flags f = []"

definition always :: "'a \<Rightarrow> bool" where
  "always x = True"

definition never :: "'a \<Rightarrow> bool" where
  "never x = False"

definition ex_results :: "future \<Rightarrow> CompletionData list" where
  "ex_results f = []"

definition ex_bufnr :: "string \<Rightarrow> int" where
  "ex_bufnr f = 1"

definition diag :: "string \<Rightarrow> int \<Rightarrow> int \<Rightarrow> string \<Rightarrow> Diagnostic" where
  "diag f l c t =
     \<lparr>filename = f, line_number = l, column_number = c, diag_text = t,
      long_formatted_text = t, kind = ''E''\<rparr>"

definition ex_diagnostics :: "string \<Rightarrow> Diagnostic list" where
  "ex_diagnostics f =
     [diag ''a.cpp'' 3 2 ''first'', diag ''a.cpp'' 3 10 ''second'', diag ''a.cpp'' 7 1 ''third'']"

definition one_diagnostic :: "string \<Rightarrow> Diagnostic list" where
  "one_diagnostic f = [diag ''a.cpp'' 3 2 ''first'']"

text \<open>
  A host whose current buffer \<^verbatim>\<open>a.cpp\<close> has 4 lines, while a parse of it is in
  flight and flags are available.
\<close>

definition ex_host :: host where
  "ex_host =
     \<lparr>current_buffer_name = ''a.cpp'', NumLinesInBuffer = 4, window_cursor = (1, 0),
      CurrentLineAndColumn = (0, 0), completion_start_column = 0,
      GetUnsavedBuffers = ex_buffers, getbufvar_ft = ex_ft, bufnr_of = ex_bufnr,
      UpdatingTranslationUnit = always, FlagsForFile = ex_flags, ResultsReady = always,
      GetResults = ex_results, DiagnosticsForFile = ex_diagnostics,
      MAX_DIAGNOSTICS_TO_DISPLAY = 2\<rparr>"

definition ex_future :: future where
  "ex_future = UpdateTranslationUnitAsync ''a.cpp'' [] [''-x'', ''c++'']"

text \<open>A completer whose parse handle is pending.\<close>

definition ex_pending :: ClangCompleter where
  "ex_pending = init\<lparr>parse_future := Some ex_future\<rparr>"

text \<open>A completer that has indexed the diagnostics of \<^verbatim>\<open>ex_diagnostics\<close>.\<close>

definition ex_indexed :: ClangCompleter where
  "ex_indexed =
     init\<lparr>diagnostic_store := Assigned (DiagnosticsToDiagStructure (ex_diagnostics ''a.cpp''))\<rparr>"

text \<open>
  A host whose cursor is at the start of the first line of \<^verbatim>\<open>a.cpp\<close> and whose
  engine reports one diagnostic on that line, at column 1001.
\<close>

definition far_diagnostics :: "string \<Rightarrow> Diagnostic list" where
  "far_diagnostics f = [diag ''a.cpp'' 1 1001 ''far'']"

definition far_host :: host where
  "far_host = ex_host\<lparr>DiagnosticsForFile := far_diagnostics\<rparr>"

text \<open>
  A parse of \<^verbatim>\<open>a.cpp\<close> is pending (\<^verbatim>\<open>ex_pending\<close>) and ready, the engine
  reports one diagnostic for \<^verbatim>\<open>a.cpp\<close> and none for any other file, and the current
  buffer has become \<^verbatim>\<open>b.cpp\<close>.
\<close>

definition diagnostics_of_a :: "string \<Rightarrow> Diagnostic list" where
  "diagnostics_of_a f = (if f = ''a.cpp'' then [diag ''a.cpp'' 3 2 ''first''] else [])"

definition switched_host :: host where
  "switched_host = ex_host\<lparr>current_buffer_name := ''b.cpp'', DiagnosticsForFile := diagnostics_of_a\<rparr>"

text \<open>A host configured with the maximum count -1.\<close>

definition negative_host :: host where
  "negative_host = ex_host\<lparr>MAX_DIAGNOSTICS_TO_DISPLAY := - 1\<rparr>"

text \<open>
  Two moments of an editing session. At the first, the current buffer \<^verbatim>\<open>a.cpp\<close>
  has 5 lines and is the only unsaved buffer, flags are available and nothing is in
  flight. At the second, the parse of \<^verbatim>\<open>a.cpp\<close> is in flight and its result
  not ready, \<^verbatim>\<open>a.cpp\<close> has been saved, and the current buffer \<^verbatim>\<open>b.cpp\<close> has
  5 lines and is the only unsaved buffer.
\<close>

definition buffer_a :: buffer where
  "buffer_a = \<lparr>buf_number = 1, buf_name = ''a.cpp'',
                buf_lines = [''int'', ''x'', ''='', ''1'', '';'']\<rparr>"

definition buffer_b :: buffer where
  "buffer_b = \<lparr>buf_number = 6, buf_name = ''b.cpp'',
                buf_lines = [''int'', ''y'', ''='', ''2'', '';'']\<rparr>"

definition updating_a :: "string \<Rightarrow> bool" where
  "updating_a f = (f = ''a.cpp'')"

definition ex_host_a :: host where
  "ex_host_a =
     ex_host\<lparr>NumLinesInBuffer := 5, GetUnsavedBuffers := [buffer_a],
       UpdatingTranslationUnit := never, ResultsReady := never\<rparr>"

definition ex_host_b :: host where
  "ex_host_b =
     ex_host_a\<lparr>current_buffer_name := ''b.cpp'', GetUnsavedBuffers := [buffer_b],
       UpdatingTranslationUnit := updating_a\<rparr>"

definition snapshot_a :: UnsavedFile where
  "snapshot_a =
     \<lparr>uf_contents = ''int'' @ CHR 0x0A # ''x'' @ CHR 0x0A # ''='' @ CHR 0x0A # ''1'' @ CHR 0x0A # '';'',
      uf_length = 11, uf_filename = ''a.cpp''\<rparr>"

definition snapshot_b :: UnsavedFile where
  "snapshot_b =
     \<lparr>uf_contents = ''int'' @ CHR 0x0A # ''y'' @ CHR 0x0A # ''='' @ CHR 0x0A # ''2'' @ CHR 0x0A # '';'',
      uf_length = 11, uf_filename = ''b.cpp''\<rparr>"

section \<open>Properties of the trigger heuristic\<close>

lemma py_slice_two:
  assumes "2 \<le> c" and "c \<le> int (length xs)"
  shows "py_slice xs (c - 2) c = [xs ! nat (c - 2), xs ! nat (c - 1)]"
proof -
  define k where "k = nat (c - 2)"
  have c: "c = int k + 2" using assms(1) by (simp add: k_def)
  have len: "k + 2 \<le> length xs" using assms(2) c by simp
  have b1: "py_bound (length xs) (c - 2) = k"
    using len by (simp add: py_bound_def c)
  have b2: "py_bound (length xs) c = k + 2"
    using len by (simp add: py_bound_def c nat_add_distrib)
  have "take 2 (drop k xs) = [xs ! k, xs ! (k + 1)]"
    using len by (simp add: take_Suc_conv_app_nth numeral_2_eq_2)
  moreover have "nat (c - 1) = k + 1" using c by simp
  ultimately show ?thesis
    by (simp add: py_slice_def Let_def b1 b2 k_def)
qed

text \<open>
  C1 (as amended). The argument is the 0-based cursor column, so the character just
  before the cursor has index \<open>start_column - 1\<close>: the function returns true iff
  \<open>1 \<le> start_column \<le> len(line)\<close> and either that character is a dot or the two
  characters at indices \<open>start_column - 2\<close> and \<open>start_column - 1\<close> spell
  \<^verbatim>\<open>->\<close> or \<^verbatim>\<open>::\<close>; it returns false for every column outside
  \<open>1 .. len(line)\<close>. Line \<^verbatim>\<open>foo.\<close> triggers at column 4, line
  \<^verbatim>\<open>foo->\<close> at column 5; line \<^verbatim>\<open>foo:\<close> does not trigger at column 4 or 5,
  and line \<^verbatim>\<open>f\<close> does not trigger at column 0.
\<close>

theorem ShouldUseClang_iff:
  "ShouldUseClang line c =
     (1 \<le> c \<and> c \<le> int (length line) \<and>
      (line ! nat (c - 1) = CHR ''.'' \<or>
       (2 \<le> c \<and>
        ((line ! nat (c - 2) = CHR ''-'' \<and> line ! nat (c - 1) = CHR ''>'') \<or>
         (line ! nat (c - 2) = CHR '':'' \<and> line ! nat (c - 1) = CHR '':'')))))
   \<and> (c < 1 \<or> int (length line) < c \<longrightarrow> \<not> ShouldUseClang line c)
   \<and> ShouldUseClang ''foo.'' 4 \<and> ShouldUseClang ''foo->'' 5
   \<and> \<not> ShouldUseClang ''foo:'' 4 \<and> \<not> ShouldUseClang ''foo:'' 5
   \<and> \<not> ShouldUseClang ''f'' 0"
proof -
  have main: "ShouldUseClang line c =
     (1 \<le> c \<and> c \<le> int (length line) \<and>
      (line ! nat (c - 1) = CHR ''.'' \<or>
       (2 \<le> c \<and>
        ((line ! nat (c - 2) = CHR ''-'' \<and> line ! nat (c - 1) = CHR ''>'') \<or>
         (line ! nat (c - 2) = CHR '':'' \<and> line ! nat (c - 1) = CHR '':'')))))"
    for line c
  proof (cases "1 \<le> c \<and> c \<le> int (length line)")
    case False
    then show ?thesis by (auto simp: ShouldUseClang_def Let_def)
  next
    case inr: True
    show ?thesis
    proof (cases "2 \<le> c")
      case True
      have "py_slice line (c - 1 - 1) c = [line ! nat (c - 2), line ! nat (c - 1)]"
        using py_slice_two [of c line] True inr by simp
      then show ?thesis using True inr by (auto simp: ShouldUseClang_def Let_def)
    next
      case False
      then show ?thesis using inr by (auto simp: ShouldUseClang_def Let_def)
    qed
  qed
  have out: "c < 1 \<or> int (length line) < c \<longrightarrow> \<not> ShouldUseClang line c"
    by (auto simp: ShouldUseClang_def Let_def)
  have e1: "ShouldUseClang ''foo.'' 4" by (simp add: main)
  have e2: "ShouldUseClang ''foo->'' 5" by (simp add: main)
  have e3: "\<not> ShouldUseClang ''foo:'' 4" by (simp add: main)
  have e4: "\<not> ShouldUseClang ''foo:'' 5" by (simp add: main)
  have e5: "\<not> ShouldUseClang ''f'' 0" by (simp add: main)
  show ?thesis using main [of line c] out e1 e2 e3 e4 e5 by blast
qed

theorem ShouldUseClang_iff_witness:
  "ShouldUseClang ''a->'' 3 \<and> \<not> ShouldUseClang ''a->'' 4 \<and> \<not> ShouldUseClang ''a->'' 2"
  using ShouldUseClang_iff [of "''a->''" 3] ShouldUseClang_iff [of "''a->''" 4]
    ShouldUseClang_iff [of "''a->''" 2]
  by simp

text \<open>
  C1 as the specification words it reads the column as 1-based and gives line
  \<^verbatim>\<open>foo.\<close> with column 5 as a triggering example. At column 5 the index
  \<open>start_column - 1 = 4\<close> is past the end of the four-character line.
\<close>

theorem ShouldUseClang_foo_dot_5: "\<not> ShouldUseClang ''foo.'' 5"
  by (simp add: ShouldUseClang_def Let_def)

section \<open>Properties of the snapshot builder\<close>

lemma unsaved_loop_filter:
  "unsaved_loop h bs (files, ch, fh) =
     (files @ map spec_snapshot (filter (spec_qualifies h) bs),
      ch @ map uf_contents (map spec_snapshot (filter (spec_qualifies h) bs)),
      fh @ map uf_filename (map spec_snapshot (filter (spec_qualifies h) bs)))"
proof (induction bs arbitrary: files ch fh)
  case Nil
  show ?case by simp
next
  case (Cons b bs)
  show ?case
  proof (cases "spec_qualifies h b")
    case True
    then show ?thesis
      by (simp add: Cons.IH spec_qualifies_def spec_snapshot_def ClangAvailableForBuffer_def
          CLANG_FILETYPES_def Let_def)
  next
    case False
    then show ?thesis
      by (auto simp: Cons.IH spec_qualifies_def ClangAvailableForBuffer_def
          CLANG_FILETYPES_def Let_def)
  qed
qed

lemma GetUnsavedFilesVector_eq:
  "GetUnsavedFilesVector h s =
     (map spec_snapshot (filter (spec_qualifies h) (GetUnsavedBuffers h)),
      s\<lparr>contents_holder :=
           map uf_contents (map spec_snapshot (filter (spec_qualifies h) (GetUnsavedBuffers h))),
         filename_holder :=
           map uf_filename (map spec_snapshot (filter (spec_qualifies h) (GetUnsavedBuffers h)))\<rparr>)"
  by (simp add: GetUnsavedFilesVector_def unsaved_loop_filter)

text \<open>
  C9. The batch built by \<^verbatim>\<open>GetUnsavedFilesVector\<close> is, in the order of the buffers
  the host enumerates, one snapshot for each buffer whose filetype is supported, whose
  newline-joined contents are not empty and whose name is not empty, and nothing else;
  each snapshot holds the buffer's name and its lines joined with newlines, and the size
  of the batch is the number of qualifying buffers.
\<close>

theorem GetUnsavedFilesVector_batch:
  "fst (GetUnsavedFilesVector h s) =
     map spec_snapshot (filter (spec_qualifies h) (GetUnsavedBuffers h))
   \<and> length (fst (GetUnsavedFilesVector h s)) =
       length (filter (spec_qualifies h) (GetUnsavedBuffers h))
   \<and> map uf_contents (fst (GetUnsavedFilesVector h s)) =
       map (\<lambda>b. join (CHR 0x0A) (buf_lines b))
         (filter (spec_qualifies h) (GetUnsavedBuffers h))
   \<and> map uf_filename (fst (GetUnsavedFilesVector h s)) =
       map buf_name (filter (spec_qualifies h) (GetUnsavedBuffers h))"
  by (simp add: GetUnsavedFilesVector_eq spec_snapshot_def comp_def)

theorem GetUnsavedFilesVector_batch_witness:
  "fst (GetUnsavedFilesVector ex_host init) =
     [\<lparr>uf_contents = ''int x;'' @ CHR 0x0A # ''x.'', uf_length = 9, uf_filename = ''a.cpp''\<rparr>,
      \<lparr>uf_contents = [CHR 0x0A], uf_length = 1, uf_filename = ''d.c''\<rparr>]"
  using GetUnsavedFilesVector_batch [of ex_host init]
  by (simp add: ex_host_def ex_buffers_def ex_ft_def spec_qualifies_def spec_snapshot_def)

section \<open>Properties of the parse request\<close>

lemma GetUnsavedFilesVector_dispatched:
  "dispatched (snd (GetUnsavedFilesVector h s)) = dispatched s"
  by (simp add: GetUnsavedFilesVector_eq)

text \<open>
  C4 (as amended). \<^verbatim>\<open>OnFileReadyToParse\<close> checks its guards in order. It dispatches
  an asynchronous translation-unit update iff the buffer has at least 5 lines, no parse
  of the file is in flight and the flags are not empty; the handle of that call becomes
  the pending parse handle. With fewer than 5 lines (whether or not a parse is in
  flight), or with at least 5 lines, no parse in flight and no flags, it clears the
  pending parse handle and does nothing else. With at least 5 lines and a parse in
  flight it changes nothing (whether or not flags are available).
\<close>

theorem OnFileReadyToParse_guards:
  "(dispatched (OnFileReadyToParse h s) \<noteq> dispatched s) =
     (5 \<le> NumLinesInBuffer h \<and> \<not> UpdatingTranslationUnit h (current_buffer_name h) \<and>
      FlagsForFile h (current_buffer_name h) \<noteq> [])
   \<and> (NumLinesInBuffer h < 5 \<or>
        (\<not> UpdatingTranslationUnit h (current_buffer_name h) \<and>
         FlagsForFile h (current_buffer_name h) = []) \<longrightarrow>
        OnFileReadyToParse h s = s\<lparr>parse_future := None\<rparr>)
   \<and> (5 \<le> NumLinesInBuffer h \<and> UpdatingTranslationUnit h (current_buffer_name h) \<longrightarrow>
        OnFileReadyToParse h s = s)
   \<and> (5 \<le> NumLinesInBuffer h \<and> \<not> UpdatingTranslationUnit h (current_buffer_name h) \<and>
        FlagsForFile h (current_buffer_name h) \<noteq> [] \<longrightarrow>
        OnFileReadyToParse h s =
          (snd (GetUnsavedFilesVector h s))
            \<lparr>parse_future :=
               Some (UpdateTranslationUnitAsync (current_buffer_name h)
                 (fst (GetUnsavedFilesVector h s)) (FlagsForFile h (current_buffer_name h))),
             dispatched := dispatched s @
               [UpdateTranslationUnitAsync (current_buffer_name h)
                 (fst (GetUnsavedFilesVector h s)) (FlagsForFile h (current_buffer_name h))]\<rparr>)"
  by (auto simp: OnFileReadyToParse_def Let_def GetUnsavedFilesVector_eq)

theorem OnFileReadyToParse_guards_witness:
  "OnFileReadyToParse ex_host ex_pending = ex_pending\<lparr>parse_future := None\<rparr>
   \<and> OnFileReadyToParse (ex_host\<lparr>NumLinesInBuffer := 5\<rparr>) ex_pending = ex_pending
   \<and> OnFileReadyToParse (ex_host\<lparr>NumLinesInBuffer := 5, UpdatingTranslationUnit := never,
        FlagsForFile := no_flags\<rparr>) ex_pending = ex_pending\<lparr>parse_future := None\<rparr>
   \<and> dispatched (OnFileReadyToParse
        (ex_host\<lparr>NumLinesInBuffer := 5, UpdatingTranslationUnit := never\<rparr>) init) =
       [UpdateTranslationUnitAsync ''a.cpp''
          [\<lparr>uf_contents = ''int x;'' @ CHR 0x0A # ''x.'', uf_length = 9, uf_filename = ''a.cpp''\<rparr>,
           \<lparr>uf_contents = [CHR 0x0A], uf_length = 1, uf_filename = ''d.c''\<rparr>]
          [''-x'', ''c++'']]"
  using OnFileReadyToParse_guards [of ex_host ex_pending]
    OnFileReadyToParse_guards [of "ex_host\<lparr>NumLinesInBuffer := 5\<rparr>" ex_pending]
    OnFileReadyToParse_guards [of "ex_host\<lparr>NumLinesInBuffer := 5,
      UpdatingTranslationUnit := never, FlagsForFile := no_flags\<rparr>" ex_pending]
    OnFileReadyToParse_guards [of "ex_host\<lparr>NumLinesInBuffer := 5,
      UpdatingTranslationUnit := never\<rparr>" init]
  by (simp add: ex_host_def always_def never_def no_flags_def ex_flags_def init_def
      GetUnsavedFilesVector_eq ex_buffers_def ex_ft_def spec_qualifies_def spec_snapshot_def)

text \<open>
  C4 as the specification words it makes a call with a parse in flight a no-op that
  leaves the pending parse handle unchanged. With a 4-line buffer and a parse in flight
  the pending handle is cleared.
\<close>

theorem OnFileReadyToParse_in_flight_clears:
  "UpdatingTranslationUnit ex_host (current_buffer_name ex_host)
   \<and> parse_future ex_pending = Some ex_future
   \<and> parse_future (OnFileReadyToParse ex_host ex_pending) = None"
  by (simp add: OnFileReadyToParse_def ex_host_def ex_pending_def always_def)

section \<open>Properties of the completion path\<close>

text \<open>
  C5. When a parse of the current file is in flight, \<^verbatim>\<open>CandidatesForQueryAsync\<close>
  posts the still-parsing notice; otherwise, when the flags collaborator has no flags
  for the file, it posts the no-compile-flags notice. In both cases it dispatches
  nothing to the engine, leaves no pending completion handle, changes nothing else and
  ends without an error (the call has no return value).
\<close>

theorem CandidatesForQueryAsync_refused:
  "(UpdatingTranslationUnit h (current_buffer_name h) \<longrightarrow>
      CandidatesForQueryAsync h query s =
        s\<lparr>completions_future := Assigned None,
          posted := posted s @ [''Still parsing file, no completions yet.'']\<rparr>)
   \<and> (\<not> UpdatingTranslationUnit h (current_buffer_name h) \<and>
        FlagsForFile h (current_buffer_name h) = [] \<longrightarrow>
      CandidatesForQueryAsync h query s =
        s\<lparr>completions_future := Assigned None,
          posted := posted s @ [''Still no compile flags, no completions yet.'']\<rparr>)
   \<and> (UpdatingTranslationUnit h (current_buffer_name h) \<or>
        FlagsForFile h (current_buffer_name h) = [] \<longrightarrow>
      dispatched (CandidatesForQueryAsync h query s) = dispatched s \<and>
      completions_future (CandidatesForQueryAsync h query s) = Assigned None \<and>
      length (posted (CandidatesForQueryAsync h query s)) = Suc (length (posted s)))"
  by (auto simp: CandidatesForQueryAsync_def Let_def PostVimMessage_def)

theorem CandidatesForQueryAsync_refused_witness:
  "CandidatesForQueryAsync ex_host ''fo'' init =
     init\<lparr>completions_future := Assigned None,
          posted := [''Still parsing file, no completions yet.'']\<rparr>
   \<and> CandidatesForQueryAsync
       (ex_host\<lparr>UpdatingTranslationUnit := never, FlagsForFile := no_flags\<rparr>) ''fo'' init =
     init\<lparr>completions_future := Assigned None,
          posted := [''Still no compile flags, no completions yet.'']\<rparr>
   \<and> dispatched (CandidatesForQueryAsync ex_host ''fo'' init) = []"
  using CandidatesForQueryAsync_refused [of ex_host "''fo''" init]
    CandidatesForQueryAsync_refused
      [of "ex_host\<lparr>UpdatingTranslationUnit := never, FlagsForFile := no_flags\<rparr>" "''fo''" init]
  by (simp add: ex_host_def always_def never_def no_flags_def init_def)

lemma CandidatesFromStoredRequest_None:
  "completions_future s = Assigned None \<Longrightarrow> CandidatesFromStoredRequest h s = Inr ([], s)"
  by (simp add: CandidatesFromStoredRequest_def)

text \<open>
  C7. On a freshly constructed completer, on which no completion request was ever made,
  \<^verbatim>\<open>CandidatesFromStoredRequest\<close> reads the attribute \<^verbatim>\<open>completions_future\<close>
  that \<^verbatim>\<open>__init__\<close> never assigned: the call raises instead of returning the empty
  list.
\<close>

theorem CandidatesFromStoredRequest_fresh:
  "CandidatesFromStoredRequest h init = Inl AttributeError"
  by (simp add: CandidatesFromStoredRequest_def init_def)

section \<open>Properties of the diagnostic index\<close>

lemma py_slice_to_take: "0 \<le> n \<Longrightarrow> py_slice_to xs n = take (nat n) xs"
  by (simp add: py_slice_to_def py_slice_def py_bound_def Let_def min_def)

text \<open>
  The list a lookup finds, without the insertion the lookup makes.
\<close>

lemma structure_getitem_fst:
  "fst (structure_getitem st f l) =
     (case st f of None \<Rightarrow> [] | Some m \<Rightarrow> (case m l of None \<Rightarrow> [] | Some ds \<Rightarrow> ds))"
  by (simp add: structure_getitem_def defaultdict_getitem_def split: option.splits)

lemma structure_getitem_snd:
  "snd (structure_getitem st f l) =
     (case st f of
        None \<Rightarrow> st(f \<mapsto> Map.empty(l \<mapsto> []))
      | Some m \<Rightarrow> (case m l of None \<Rightarrow> st(f \<mapsto> m(l \<mapsto> [])) | Some ds \<Rightarrow> st(f \<mapsto> m)))"
  by (simp add: structure_getitem_def defaultdict_getitem_def split: option.splits)

lemma structure_append_lookup:
  "fst (structure_getitem (structure_append st f l d) f' l') =
     (if f' = f \<and> l' = l then fst (structure_getitem st f l) @ [d]
      else fst (structure_getitem st f' l'))"
  by (simp add: structure_getitem_fst structure_append_def defaultdict_getitem_def
      split: option.splits)

lemma structure_loop_lookup:
  "fst (structure_getitem (structure_loop ds st) f l) =
     fst (structure_getitem st f l) @
     filter (\<lambda>d. filename d = f \<and> line_number d = l) ds"
proof (induction ds arbitrary: st)
  case Nil
  show ?case by simp
next
  case (Cons d ds)
  show ?case by (simp add: Cons.IH structure_append_lookup)
qed

lemma DiagnosticsToDiagStructure_lookup:
  "fst (structure_getitem (DiagnosticsToDiagStructure ds) f l) =
     filter (\<lambda>d. filename d = f \<and> line_number d = l) ds"
  using structure_loop_lookup [of ds Map.empty f l]
  by (simp add: DiagnosticsToDiagStructure_def structure_getitem_fst)

lemma GetDiagnosticsForCurrentFile_ready:
  "DiagnosticsForCurrentFileReady h s \<Longrightarrow>
   GetDiagnosticsForCurrentFile h s =
     (map (DiagnosticToDict h)
        (py_slice_to (DiagnosticsForFile h (current_buffer_name h)) (MAX_DIAGNOSTICS_TO_DISPLAY h)),
      s\<lparr>last_prepared_diagnostics :=
           map (DiagnosticToDict h)
             (py_slice_to (DiagnosticsForFile h (current_buffer_name h))
                (MAX_DIAGNOSTICS_TO_DISPLAY h)),
         parse_future := None,
         diagnostic_store :=
           Assigned (DiagnosticsToDiagStructure (DiagnosticsForFile h (current_buffer_name h)))\<rparr>)"
  by (simp add: GetDiagnosticsForCurrentFile_def Let_def)

lemma GetDiagnosticsForCurrentFile_not_ready:
  "\<not> DiagnosticsForCurrentFileReady h s \<Longrightarrow>
   GetDiagnosticsForCurrentFile h s = (last_prepared_diagnostics s, s)"
  by (simp add: GetDiagnosticsForCurrentFile_def)

lemma py_slice_to_eq:
  "py_slice_to xs n = (if 0 \<le> n then take (nat n) xs else take (length xs - nat (- n)) xs)"
proof (cases "0 \<le> n")
  case True
  then show ?thesis by (simp add: py_slice_to_take)
next
  case False
  then have "nat (max 0 (int (length xs) + n)) = length xs - nat (- n)" by simp
  with False show ?thesis
    by (simp add: py_slice_to_def py_slice_def py_bound_def Let_def)
qed

lemma lookup_index_Assigned:
  "diagnostic_store s = Assigned (DiagnosticsToDiagStructure ds) \<Longrightarrow>
   lookup_index s f l = Inr (filter (\<lambda>d. filename d = f \<and> line_number d = l) ds)"
  by (simp add: lookup_index_def DiagnosticsToDiagStructure_lookup)

lemma lookup_index_consumed:
  "DiagnosticsForCurrentFileReady h s \<Longrightarrow>
   lookup_index (snd (GetDiagnosticsForCurrentFile h s)) f l =
     Inr (filter (\<lambda>d. filename d = f \<and> line_number d = l)
       (DiagnosticsForFile h (current_buffer_name h)))"
  by (simp add: GetDiagnosticsForCurrentFile_ready lookup_index_Assigned)

text \<open>
  C6 (as amended). When a completed parse result is consumed, the whole index is
  replaced, whatever it held before, by the one built from the diagnostics the engine
  reports for the file of the buffer that is current at the moment of consumption; this
  is the parsed file \<open>F\<close> when the current buffer is still \<open>F\<close>. In the new index
  the lookup of file \<open>f\<close> and line \<open>l\<close> finds exactly the reported diagnostics
  whose filename is \<open>f\<close> and whose line is \<open>l\<close>, in the engine's order. Indexing two
  diagnostics on line 3 and one on line 7 of \<^verbatim>\<open>a.cpp\<close> makes the lookup of line 3
  find the two in order and the lookup of line 99 find none; indexing again without
  the diagnostic on line 7 makes the lookup of line 7 find none.
\<close>

theorem DiagnosticIndex_rebuilt:
  "(DiagnosticsForCurrentFileReady h s \<longrightarrow>
      diagnostic_store (snd (GetDiagnosticsForCurrentFile h s)) =
        Assigned (DiagnosticsToDiagStructure (DiagnosticsForFile h (current_buffer_name h)))
      \<and> lookup_index (snd (GetDiagnosticsForCurrentFile h s)) f l =
          Inr (filter (\<lambda>d. filename d = f \<and> line_number d = l)
            (DiagnosticsForFile h (current_buffer_name h))))
   \<and> (parse_future s = Some (UpdateTranslationUnitAsync F files flags) \<and>
        ResultsReady h (UpdateTranslationUnitAsync F files flags) \<and>
        current_buffer_name h = F \<longrightarrow>
      lookup_index (snd (GetDiagnosticsForCurrentFile h s)) f l =
        Inr (filter (\<lambda>d. filename d = f \<and> line_number d = l) (DiagnosticsForFile h F)))
   \<and> fst (structure_getitem (DiagnosticsToDiagStructure ds) f l) =
       filter (\<lambda>d. filename d = f \<and> line_number d = l) ds
   \<and> fst (structure_getitem (DiagnosticsToDiagStructure
        [diag ''a.cpp'' 3 2 ''first'', diag ''a.cpp'' 3 10 ''second'',
         diag ''a.cpp'' 7 1 ''third'']) ''a.cpp'' 3) =
       [diag ''a.cpp'' 3 2 ''first'', diag ''a.cpp'' 3 10 ''second'']
   \<and> fst (structure_getitem (DiagnosticsToDiagStructure
        [diag ''a.cpp'' 3 2 ''first'', diag ''a.cpp'' 3 10 ''second'',
         diag ''a.cpp'' 7 1 ''third'']) ''a.cpp'' 99) = []
   \<and> fst (structure_getitem (DiagnosticsToDiagStructure
        [diag ''a.cpp'' 3 2 ''first'', diag ''a.cpp'' 3 10 ''second'']) ''a.cpp'' 7) = []"
proof -
  have a: "DiagnosticsForCurrentFileReady h s \<longrightarrow>
      diagnostic_store (snd (GetDiagnosticsForCurrentFile h s)) =
        Assigned (DiagnosticsToDiagStructure (DiagnosticsForFile h (current_buffer_name h)))
      \<and> lookup_index (snd (GetDiagnosticsForCurrentFile h s)) f l =
          Inr (filter (\<lambda>d. filename d = f \<and> line_number d = l)
            (DiagnosticsForFile h (current_buffer_name h)))"
    by (simp add: lookup_index_consumed) (simp add: GetDiagnosticsForCurrentFile_ready)
  have b: "parse_future s = Some (UpdateTranslationUnitAsync F files flags) \<and>
        ResultsReady h (UpdateTranslationUnitAsync F files flags) \<and>
        current_buffer_name h = F \<longrightarrow>
      lookup_index (snd (GetDiagnosticsForCurrentFile h s)) f l =
        Inr (filter (\<lambda>d. filename d = f \<and> line_number d = l) (DiagnosticsForFile h F))"
  proof
    assume p: "parse_future s = Some (UpdateTranslationUnitAsync F files flags) \<and>
        ResultsReady h (UpdateTranslationUnitAsync F files flags) \<and>
        current_buffer_name h = F"
    then have "DiagnosticsForCurrentFileReady h s"
      by (simp add: DiagnosticsForCurrentFileReady_def)
    from lookup_index_consumed [OF this, of f l] p
    show "lookup_index (snd (GetDiagnosticsForCurrentFile h s)) f l =
        Inr (filter (\<lambda>d. filename d = f \<and> line_number d = l) (DiagnosticsForFile h F))"
      by simp
  qed
  have c: "fst (structure_getitem (DiagnosticsToDiagStructure ds) f l) =
       filter (\<lambda>d. filename d = f \<and> line_number d = l) ds" for ds f l
    by (rule DiagnosticsToDiagStructure_lookup)
  show ?thesis using a b by (simp add: c diag_def)
qed

text \<open>
  A completer consumes the parse whose diagnostics are \<^verbatim>\<open>ex_diagnostics\<close>, then a
  second parse of \<^verbatim>\<open>a.cpp\<close> whose only diagnostic is that of
  \<^verbatim>\<open>one_diagnostic\<close>: line 3 is found after the first, and the diagnostic of line 7
  is gone after the second.
\<close>

theorem DiagnosticIndex_rebuilt_witness:
  "lookup_index (snd (GetDiagnosticsForCurrentFile ex_host ex_pending)) ''a.cpp'' 3 =
     Inr [diag ''a.cpp'' 3 2 ''first'', diag ''a.cpp'' 3 10 ''second'']
   \<and> lookup_index (snd (GetDiagnosticsForCurrentFile ex_host ex_pending)) ''a.cpp'' 7 =
       Inr [diag ''a.cpp'' 7 1 ''third'']
   \<and> lookup_index (snd (GetDiagnosticsForCurrentFile (ex_host\<lparr>DiagnosticsForFile := one_diagnostic\<rparr>)
        ((snd (GetDiagnosticsForCurrentFile ex_host ex_pending))\<lparr>parse_future := Some ex_future\<rparr>)))
        ''a.cpp'' 7 = Inr []"
proof -
  let ?s1 = "(snd (GetDiagnosticsForCurrentFile ex_host ex_pending))\<lparr>parse_future := Some ex_future\<rparr>"
  let ?h2 = "ex_host\<lparr>DiagnosticsForFile := one_diagnostic\<rparr>"
  have p1: "parse_future ex_pending = Some (UpdateTranslationUnitAsync ''a.cpp'' [] [''-x'', ''c++'']) \<and>
        ResultsReady ex_host (UpdateTranslationUnitAsync ''a.cpp'' [] [''-x'', ''c++'']) \<and>
        current_buffer_name ex_host = ''a.cpp''"
    by (simp add: ex_pending_def ex_future_def ex_host_def always_def)
  have p2: "parse_future ?s1 = Some (UpdateTranslationUnitAsync ''a.cpp'' [] [''-x'', ''c++'']) \<and>
        ResultsReady ?h2 (UpdateTranslationUnitAsync ''a.cpp'' [] [''-x'', ''c++'']) \<and>
        current_buffer_name ?h2 = ''a.cpp''"
    by (simp add: ex_future_def ex_host_def always_def)
  have d: "DiagnosticsForFile ex_host ''a.cpp'' = ex_diagnostics ''a.cpp''"
    "DiagnosticsForFile ?h2 ''a.cpp'' = one_diagnostic ''a.cpp''"
    by (simp_all add: ex_host_def)
  have a3: "lookup_index (snd (GetDiagnosticsForCurrentFile ex_host ex_pending)) ''a.cpp'' 3 =
      Inr (filter (\<lambda>d. filename d = ''a.cpp'' \<and> line_number d = 3) (DiagnosticsForFile ex_host ''a.cpp''))"
    using DiagnosticIndex_rebuilt [of ex_host ex_pending "''a.cpp''" 3 "''a.cpp''" "[]" "[''-x'', ''c++'']"] p1
    by blast
  have a7: "lookup_index (snd (GetDiagnosticsForCurrentFile ex_host ex_pending)) ''a.cpp'' 7 =
      Inr (filter (\<lambda>d. filename d = ''a.cpp'' \<and> line_number d = 7) (DiagnosticsForFile ex_host ''a.cpp''))"
    using DiagnosticIndex_rebuilt [of ex_host ex_pending "''a.cpp''" 7 "''a.cpp''" "[]" "[''-x'', ''c++'']"] p1
    by blast
  have b7: "lookup_index (snd (GetDiagnosticsForCurrentFile ?h2 ?s1)) ''a.cpp'' 7 =
      Inr (filter (\<lambda>d. filename d = ''a.cpp'' \<and> line_number d = 7) (DiagnosticsForFile ?h2 ''a.cpp''))"
    using DiagnosticIndex_rebuilt [of ?h2 ?s1 "''a.cpp''" 7 "''a.cpp''" "[]" "[''-x'', ''c++'']"] p2
    by blast
  have c1: "lookup_index (snd (GetDiagnosticsForCurrentFile ex_host ex_pending)) ''a.cpp'' 3 =
     Inr [diag ''a.cpp'' 3 2 ''first'', diag ''a.cpp'' 3 10 ''second'']"
    unfolding a3 d by (simp add: ex_diagnostics_def diag_def)
  have c2: "lookup_index (snd (GetDiagnosticsForCurrentFile ex_host ex_pending)) ''a.cpp'' 7 =
       Inr [diag ''a.cpp'' 7 1 ''third'']"
    unfolding a7 d by (simp add: ex_diagnostics_def diag_def)
  have c3: "lookup_index (snd (GetDiagnosticsForCurrentFile ?h2 ?s1)) ''a.cpp'' 7 = Inr []"
    unfolding b7 d by (simp add: one_diagnostic_def diag_def)
  from c1 c2 c3 show ?thesis by blast
qed

text \<open>
  C6 as the specification words it speaks of the diagnostics of the parse of file
  \<open>F\<close>. Here the pending parse is of \<^verbatim>\<open>a.cpp\<close>, its result is ready and the
  engine reports a diagnostic on line 3 of \<^verbatim>\<open>a.cpp\<close>; consumed while the current
  buffer is \<^verbatim>\<open>b.cpp\<close>, it leaves an index in which line 3 of \<^verbatim>\<open>a.cpp\<close> has no
  diagnostic.
\<close>

theorem DiagnosticIndex_switched_buffer:
  "parse_future ex_pending = Some (UpdateTranslationUnitAsync ''a.cpp'' [] [''-x'', ''c++''])
   \<and> DiagnosticsForCurrentFileReady switched_host ex_pending
   \<and> DiagnosticsForFile switched_host ''a.cpp'' = [diag ''a.cpp'' 3 2 ''first'']
   \<and> parse_future (snd (GetDiagnosticsForCurrentFile switched_host ex_pending)) = None
   \<and> lookup_index (snd (GetDiagnosticsForCurrentFile switched_host ex_pending)) ''a.cpp'' 3 = Inr []"
proof -
  have r: "DiagnosticsForCurrentFileReady switched_host ex_pending"
    by (simp add: DiagnosticsForCurrentFileReady_def switched_host_def ex_host_def
        ex_pending_def always_def)
  have h: "current_buffer_name switched_host = ''b.cpp''"
    "DiagnosticsForFile switched_host = diagnostics_of_a"
    by (simp_all add: switched_host_def ex_host_def)
  have lk: "lookup_index (snd (GetDiagnosticsForCurrentFile switched_host ex_pending)) ''a.cpp'' 3 =
      Inr []"
    by (simp add: lookup_index_consumed [OF r] h diagnostics_of_a_def)
  have pf: "parse_future (snd (GetDiagnosticsForCurrentFile switched_host ex_pending)) = None"
    by (simp add: GetDiagnosticsForCurrentFile_ready [OF r])
  have p: "parse_future ex_pending = Some (UpdateTranslationUnitAsync ''a.cpp'' [] [''-x'', ''c++''])"
    by (simp add: ex_pending_def ex_future_def)
  have d: "DiagnosticsForFile switched_host ''a.cpp'' = [diag ''a.cpp'' 3 2 ''first'']"
    by (simp add: h diagnostics_of_a_def)
  from p r d pf lk show ?thesis by blast
qed

text \<open>
  C8 (as amended). When the pending parse result is ready,
  \<^verbatim>\<open>GetDiagnosticsForCurrentFile\<close> rebuilds the index (a lookup of file \<open>f\<close> and
  line \<open>l\<close> then finds exactly the reported diagnostics with that filename and line),
  caches and returns the display dictionaries of \<^verbatim>\<open>diagnostics[ : MAX ]\<close>, and
  clears the pending parse handle, changing nothing else. The slice is the first
  \<open>MAX\<close> diagnostics, so at most \<open>MAX\<close> of them, when the configured maximum is
  not negative; for a negative maximum it is all but the last \<open>- MAX\<close> diagnostics.
  When no parse is pending or the pending one is not ready, the call returns the cached
  list and changes nothing.
\<close>

theorem GetDiagnosticsForCurrentFile_cases:
  "DiagnosticsForCurrentFileReady h s =
      (\<exists>fut. parse_future s = Some fut \<and> ResultsReady h fut)
   \<and> (DiagnosticsForCurrentFileReady h s \<longrightarrow>
        GetDiagnosticsForCurrentFile h s =
          (map (DiagnosticToDict h)
             (py_slice_to (DiagnosticsForFile h (current_buffer_name h))
                (MAX_DIAGNOSTICS_TO_DISPLAY h)),
           s\<lparr>last_prepared_diagnostics :=
                map (DiagnosticToDict h)
                  (py_slice_to (DiagnosticsForFile h (current_buffer_name h))
                     (MAX_DIAGNOSTICS_TO_DISPLAY h)),
              parse_future := None,
              diagnostic_store :=
                Assigned (DiagnosticsToDiagStructure
                  (DiagnosticsForFile h (current_buffer_name h)))\<rparr>)
        \<and> lookup_index (snd (GetDiagnosticsForCurrentFile h s)) f l =
            Inr (filter (\<lambda>d. filename d = f \<and> line_number d = l)
              (DiagnosticsForFile h (current_buffer_name h))))
   \<and> (0 \<le> n \<longrightarrow> py_slice_to ds n = take (nat n) ds \<and> int (length (py_slice_to ds n)) \<le> n)
   \<and> (n < 0 \<longrightarrow> py_slice_to ds n = take (length ds - nat (- n)) ds)
   \<and> (\<not> DiagnosticsForCurrentFileReady h s \<longrightarrow>
        GetDiagnosticsForCurrentFile h s = (last_prepared_diagnostics s, s))"
proof -
  have a: "DiagnosticsForCurrentFileReady h s =
           (\<exists>fut. parse_future s = Some fut \<and> ResultsReady h fut)"
    by (simp add: DiagnosticsForCurrentFileReady_def split: option.splits)
  have b: "DiagnosticsForCurrentFileReady h s \<longrightarrow>
        GetDiagnosticsForCurrentFile h s =
          (map (DiagnosticToDict h)
             (py_slice_to (DiagnosticsForFile h (current_buffer_name h))
                (MAX_DIAGNOSTICS_TO_DISPLAY h)),
           s\<lparr>last_prepared_diagnostics :=
                map (DiagnosticToDict h)
                  (py_slice_to (DiagnosticsForFile h (current_buffer_name h))
                     (MAX_DIAGNOSTICS_TO_DISPLAY h)),
              parse_future := None,
              diagnostic_store :=
                Assigned (DiagnosticsToDiagStructure
                  (DiagnosticsForFile h (current_buffer_name h)))\<rparr>)
        \<and> lookup_index (snd (GetDiagnosticsForCurrentFile h s)) f l =
            Inr (filter (\<lambda>d. filename d = f \<and> line_number d = l)
              (DiagnosticsForFile h (current_buffer_name h)))"
    by (simp add: lookup_index_consumed) (simp add: GetDiagnosticsForCurrentFile_ready)
  have c: "0 \<le> n \<longrightarrow> py_slice_to ds n = take (nat n) ds \<and> int (length (py_slice_to ds n)) \<le> n"
    by (auto simp: py_slice_to_eq min_def)
  have d: "n < 0 \<longrightarrow> py_slice_to ds n = take (length ds - nat (- n)) ds"
    by (simp add: py_slice_to_eq)
  have e: "\<not> DiagnosticsForCurrentFileReady h s \<longrightarrow>
           GetDiagnosticsForCurrentFile h s = (last_prepared_diagnostics s, s)"
    by (simp add: GetDiagnosticsForCurrentFile_not_ready)
  show ?thesis using a b c d e by blast
qed

theorem GetDiagnosticsForCurrentFile_cases_witness:
  "fst (GetDiagnosticsForCurrentFile ex_host ex_pending) =
     [\<lparr>bufnr = 1, lnum = 3, col = 2, dtext = ''first'', dtype = ''E'', valid = 1\<rparr>,
      \<lparr>bufnr = 1, lnum = 3, col = 10, dtext = ''second'', dtype = ''E'', valid = 1\<rparr>]
   \<and> parse_future (snd (GetDiagnosticsForCurrentFile ex_host ex_pending)) = None
   \<and> last_prepared_diagnostics (snd (GetDiagnosticsForCurrentFile ex_host ex_pending)) =
       fst (GetDiagnosticsForCurrentFile ex_host ex_pending)
   \<and> lookup_index (snd (GetDiagnosticsForCurrentFile ex_host ex_pending)) ''a.cpp'' 7 =
       Inr [\<lparr>filename = ''a.cpp'', line_number = 7, column_number = 1, diag_text = ''third'',
             long_formatted_text = ''third'', kind = ''E''\<rparr>]
   \<and> lookup_index (snd (GetDiagnosticsForCurrentFile ex_host ex_pending)) ''a.cpp'' 4 = Inr []
   \<and> GetDiagnosticsForCurrentFile ex_host init = ([], init)"
proof -
  have r: "DiagnosticsForCurrentFileReady ex_host ex_pending"
    by (simp add: DiagnosticsForCurrentFileReady_def ex_host_def ex_pending_def always_def)
  have n: "\<not> DiagnosticsForCurrentFileReady ex_host init"
    by (simp add: DiagnosticsForCurrentFileReady_def init_def)
  have l: "last_prepared_diagnostics init = []" by (simp add: init_def)
  have m: "(0::int) \<le> 2" by simp
  have sl: "py_slice_to (ex_diagnostics ''a.cpp'') 2 = take (nat 2) (ex_diagnostics ''a.cpp'')"
    using GetDiagnosticsForCurrentFile_cases [of ex_host ex_pending "''a.cpp''" 7 2
        "ex_diagnostics ''a.cpp''"] m
    by blast
  have h: "current_buffer_name ex_host = ''a.cpp''" "DiagnosticsForFile ex_host = ex_diagnostics"
    "MAX_DIAGNOSTICS_TO_DISPLAY ex_host = 2"
    by (simp_all add: ex_host_def)
  have g: "GetDiagnosticsForCurrentFile ex_host ex_pending =
          (map (DiagnosticToDict ex_host) (py_slice_to (ex_diagnostics ''a.cpp'') 2),
           ex_pending\<lparr>last_prepared_diagnostics :=
                map (DiagnosticToDict ex_host) (py_slice_to (ex_diagnostics ''a.cpp'') 2),
              parse_future := None,
              diagnostic_store :=
                Assigned (DiagnosticsToDiagStructure (ex_diagnostics ''a.cpp''))\<rparr>)"
    using GetDiagnosticsForCurrentFile_cases [of ex_host ex_pending "''a.cpp''" 7 2
        "ex_diagnostics ''a.cpp''"] r
    unfolding h by blast
  have l7: "lookup_index (snd (GetDiagnosticsForCurrentFile ex_host ex_pending)) ''a.cpp'' 7 =
      Inr (filter (\<lambda>d. filename d = ''a.cpp'' \<and> line_number d = 7) (ex_diagnostics ''a.cpp''))"
    using GetDiagnosticsForCurrentFile_cases [of ex_host ex_pending "''a.cpp''" 7 2
        "ex_diagnostics ''a.cpp''"] r
    unfolding h by blast
  have l4: "lookup_index (snd (GetDiagnosticsForCurrentFile ex_host ex_pending)) ''a.cpp'' 4 =
      Inr (filter (\<lambda>d. filename d = ''a.cpp'' \<and> line_number d = 4) (ex_diagnostics ''a.cpp''))"
    using GetDiagnosticsForCurrentFile_cases [of ex_host ex_pending "''a.cpp''" 4 2
        "ex_diagnostics ''a.cpp''"] r
    unfolding h by blast
  have i: "GetDiagnosticsForCurrentFile ex_host init = ([], init)"
    using GetDiagnosticsForCurrentFile_cases [of ex_host init "''a.cpp''" 7 2
        "ex_diagnostics ''a.cpp''"] n l
    by simp
  have c1: "fst (GetDiagnosticsForCurrentFile ex_host ex_pending) =
     [\<lparr>bufnr = 1, lnum = 3, col = 2, dtext = ''first'', dtype = ''E'', valid = 1\<rparr>,
      \<lparr>bufnr = 1, lnum = 3, col = 10, dtext = ''second'', dtype = ''E'', valid = 1\<rparr>]"
    unfolding g sl
    by (simp add: ex_diagnostics_def diag_def DiagnosticToDict_def ex_host_def ex_bufnr_def
        numeral_2_eq_2)
  have c2: "parse_future (snd (GetDiagnosticsForCurrentFile ex_host ex_pending)) = None"
    unfolding g by simp
  have c3: "last_prepared_diagnostics (snd (GetDiagnosticsForCurrentFile ex_host ex_pending)) =
       fst (GetDiagnosticsForCurrentFile ex_host ex_pending)"
    unfolding g by simp
  have c4: "lookup_index (snd (GetDiagnosticsForCurrentFile ex_host ex_pending)) ''a.cpp'' 7 =
       Inr [\<lparr>filename = ''a.cpp'', line_number = 7, column_number = 1, diag_text = ''third'',
             long_formatted_text = ''third'', kind = ''E''\<rparr>]"
    unfolding l7 by (simp add: ex_diagnostics_def diag_def)
  have c5: "lookup_index (snd (GetDiagnosticsForCurrentFile ex_host ex_pending)) ''a.cpp'' 4 = Inr []"
    unfolding l4 by (simp add: ex_diagnostics_def diag_def)
  from c1 c2 c3 c4 c5 i show ?thesis by blast
qed

text \<open>
  C8 as the specification words it caps the returned list at the configured maximum
  count. With the maximum configured as -1 and three diagnostics reported, two are
  returned.
\<close>

theorem GetDiagnosticsForCurrentFile_negative_max:
  "MAX_DIAGNOSTICS_TO_DISPLAY negative_host = - 1
   \<and> DiagnosticsForCurrentFileReady negative_host ex_pending
   \<and> length (DiagnosticsForFile negative_host (current_buffer_name negative_host)) = 3
   \<and> length (fst (GetDiagnosticsForCurrentFile negative_host ex_pending)) = 2"
proof -
  have r: "DiagnosticsForCurrentFileReady negative_host ex_pending"
    by (simp add: DiagnosticsForCurrentFileReady_def negative_host_def ex_host_def
        ex_pending_def always_def)
  have h: "current_buffer_name negative_host = ''a.cpp''"
    "DiagnosticsForFile negative_host = ex_diagnostics"
    "MAX_DIAGNOSTICS_TO_DISPLAY negative_host = - 1"
    by (simp_all add: negative_host_def ex_host_def)
  show ?thesis
    using r
    by (simp add: GetDiagnosticsForCurrentFile_ready h py_slice_to_eq ex_diagnostics_def)
qed

section \<open>Properties of the detailed diagnostic\<close>

lemma ShowDetailedDiagnostic_no_diagnostics:
  assumes "diagnostic_store s = Assigned store"
    and "fst (structure_getitem store (current_buffer_name h)
           (fst (CurrentLineAndColumn h) + 1)) = []"
  shows "ShowDetailedDiagnostic h s =
     Inr (PostVimMessage ''No diagnostic for current line!''
       (s\<lparr>diagnostic_store :=
            Assigned (snd (structure_getitem store (current_buffer_name h)
              (fst (CurrentLineAndColumn h) + 1)))\<rparr>))"
proof (cases "structure_getitem store (current_buffer_name h) (fst (CurrentLineAndColumn h) + 1)")
  case (Pair ds st)
  with assms(2) have "ds = []" by simp
  with Pair assms(1) show ?thesis by (simp add: ShowDetailedDiagnostic_def Let_def)
qed

lemma store_changed:
  assumes "store' f \<noteq> store f"
  shows "Inr (PostVimMessage m (s\<lparr>diagnostic_store := Assigned store'\<rparr>)) \<noteq>
         (Inr (PostVimMessage m (s\<lparr>diagnostic_store := Assigned store\<rparr>)) :: py_error + ClangCompleter)"
proof
  assume "Inr (PostVimMessage m (s\<lparr>diagnostic_store := Assigned store'\<rparr>)) =
         (Inr (PostVimMessage m (s\<lparr>diagnostic_store := Assigned store\<rparr>)) :: py_error + ClangCompleter)"
  then have "diagnostic_store (PostVimMessage m (s\<lparr>diagnostic_store := Assigned store'\<rparr>)) =
             diagnostic_store (PostVimMessage m (s\<lparr>diagnostic_store := Assigned store\<rparr>))"
    by simp
  then have "store' = store" by (simp add: PostVimMessage_def)
  with assms show False by simp
qed

text \<open>
  C10. Once the index exists, \<^verbatim>\<open>ShowDetailedDiagnostic\<close> writes to it: when the
  index has no entry for the current file, the lookup leaves an entry for the file that
  maps the current line to the empty list; when it has an entry for the file without
  the current line, the lookup adds the line with the empty list to that entry. In both
  cases the notice of no diagnostic is posted and the completer is not the one a
  read-only lookup would leave.
\<close>

theorem ShowDetailedDiagnostic_inserts:
  assumes "diagnostic_store s = Assigned store"
  shows "(store (current_buffer_name h) = None \<longrightarrow>
            ShowDetailedDiagnostic h s =
              Inr (PostVimMessage ''No diagnostic for current line!''
                (s\<lparr>diagnostic_store := Assigned (store(current_buffer_name h \<mapsto>
                     Map.empty(fst (CurrentLineAndColumn h) + 1 \<mapsto> [])))\<rparr>)))
    \<and> (\<forall>m. store (current_buffer_name h) = Some m \<and> m (fst (CurrentLineAndColumn h) + 1) = None \<longrightarrow>
            ShowDetailedDiagnostic h s =
              Inr (PostVimMessage ''No diagnostic for current line!''
                (s\<lparr>diagnostic_store := Assigned (store(current_buffer_name h \<mapsto>
                     m(fst (CurrentLineAndColumn h) + 1 \<mapsto> [])))\<rparr>)))
    \<and> (store (current_buffer_name h) = None \<or>
        (\<exists>m. store (current_buffer_name h) = Some m \<and> m (fst (CurrentLineAndColumn h) + 1) = None) \<longrightarrow>
            ShowDetailedDiagnostic h s \<noteq> Inr (PostVimMessage ''No diagnostic for current line!'' s))"
proof -
  let ?f = "current_buffer_name h"
  let ?l = "fst (CurrentLineAndColumn h) + 1"
  let ?msg = "''No diagnostic for current line!''"
  have s: "s = s\<lparr>diagnostic_store := Assigned store\<rparr>" using assms by simp
  have a: "ShowDetailedDiagnostic h s =
      Inr (PostVimMessage ?msg (s\<lparr>diagnostic_store := Assigned (store(?f \<mapsto> Map.empty(?l \<mapsto> [])))\<rparr>))"
    if "store ?f = None"
    using ShowDetailedDiagnostic_no_diagnostics [OF assms, of h] that
    by (simp add: structure_getitem_fst structure_getitem_snd)
  have b: "ShowDetailedDiagnostic h s =
      Inr (PostVimMessage ?msg (s\<lparr>diagnostic_store := Assigned (store(?f \<mapsto> m(?l \<mapsto> [])))\<rparr>))"
    if "store ?f = Some m" and "m ?l = None" for m
    using ShowDetailedDiagnostic_no_diagnostics [OF assms, of h] that
    by (simp add: structure_getitem_fst structure_getitem_snd)
  have c: "ShowDetailedDiagnostic h s \<noteq> Inr (PostVimMessage ?msg s)"
    if "store ?f = None"
  proof -
    have "(store(?f \<mapsto> Map.empty(?l \<mapsto> []))) ?f \<noteq> store ?f" using that by simp
    from store_changed [of "store(?f \<mapsto> Map.empty(?l \<mapsto> []))" ?f store ?msg s, OF this]
    show ?thesis using a [OF that] s by simp
  qed
  have d: "ShowDetailedDiagnostic h s \<noteq> Inr (PostVimMessage ?msg s)"
    if "store ?f = Some m" and "m ?l = None" for m
  proof -
    have "m(?l \<mapsto> []) \<noteq> m"
    proof
      assume "m(?l \<mapsto> []) = m"
      then have "(m(?l \<mapsto> [])) ?l = m ?l" by simp
      with that(2) show False by simp
    qed
    then have "(store(?f \<mapsto> m(?l \<mapsto> []))) ?f \<noteq> store ?f" using that by simp
    from store_changed [of "store(?f \<mapsto> m(?l \<mapsto> []))" ?f store ?msg s, OF this]
    show ?thesis using b [OF that] s by simp
  qed
  show ?thesis using a b c d by blast
qed

theorem ShowDetailedDiagnostic_inserts_witness:
  "ShowDetailedDiagnostic (ex_host\<lparr>current_buffer_name := ''b.cpp''\<rparr>) ex_indexed =
     Inr (PostVimMessage ''No diagnostic for current line!''
       (ex_indexed\<lparr>diagnostic_store :=
          Assigned ((DiagnosticsToDiagStructure (ex_diagnostics ''a.cpp''))
            (''b.cpp'' \<mapsto> Map.empty(1 \<mapsto> [])))\<rparr>))
   \<and> ShowDetailedDiagnostic (ex_host\<lparr>current_buffer_name := ''b.cpp''\<rparr>) ex_indexed \<noteq>
       Inr (PostVimMessage ''No diagnostic for current line!'' ex_indexed)"
proof -
  have st: "diagnostic_store ex_indexed =
      Assigned (DiagnosticsToDiagStructure (ex_diagnostics ''a.cpp''))"
    by (simp add: ex_indexed_def)
  have none: "DiagnosticsToDiagStructure (ex_diagnostics ''a.cpp'') ''b.cpp'' = None"
    by (simp add: DiagnosticsToDiagStructure_def ex_diagnostics_def diag_def
        structure_append_def defaultdict_getitem_def)
  let ?h = "ex_host\<lparr>current_buffer_name := ''b.cpp''\<rparr>"
  have hh: "current_buffer_name ?h = ''b.cpp''" "fst (CurrentLineAndColumn ?h) + 1 = 1"
    by (simp_all add: ex_host_def)
  have n: "DiagnosticsToDiagStructure (ex_diagnostics ''a.cpp'') (current_buffer_name ?h) = None"
    using none by (simp only: hh)
  have a: "ShowDetailedDiagnostic ?h ex_indexed =
     Inr (PostVimMessage ''No diagnostic for current line!''
       (ex_indexed\<lparr>diagnostic_store :=
          Assigned ((DiagnosticsToDiagStructure (ex_diagnostics ''a.cpp''))
            (current_buffer_name ?h \<mapsto> Map.empty(fst (CurrentLineAndColumn ?h) + 1 \<mapsto> [])))\<rparr>))"
    using ShowDetailedDiagnostic_inserts [OF st, of ?h] n by blast
  have b: "ShowDetailedDiagnostic ?h ex_indexed \<noteq>
       Inr (PostVimMessage ''No diagnostic for current line!'' ex_indexed)"
    using ShowDetailedDiagnostic_inserts [OF st, of ?h] n by blast
  show ?thesis using a b by (simp only: hh) simp
qed

text \<open>
  The scan returns the first diagnostic whose distance is the least one, provided some
  distance is below the starting distance; otherwise it returns what it started from.
\<close>

lemma closest_loop_find:
  "closest_loop c ds (best, b) =
     (if \<exists>d \<in> set ds. \<bar>c - column_number d\<bar> < b
      then (find (\<lambda>d. \<bar>c - column_number d\<bar> = Min ((\<lambda>d. \<bar>c - column_number d\<bar>) ` set ds)) ds,
            Min ((\<lambda>d. \<bar>c - column_number d\<bar>) ` set ds))
      else (best, b))"
proof (induction ds arbitrary: best b)
  case Nil
  show ?case by simp
next
  case (Cons d ds)
  let ?D = "\<lambda>d. \<bar>c - column_number d\<bar>"
  show ?case
  proof (cases "ds = []")
    case True
    then show ?thesis by (simp add: Let_def)
  next
    case ne: False
    have M: "Min (insert (?D d) (?D ` set ds)) = min (?D d) (Min (?D ` set ds))"
      using ne by simp
    have lower: "\<And>e. e \<in> set ds \<Longrightarrow> Min (?D ` set ds) \<le> ?D e"
      by simp
    have attained: "\<exists>e \<in> set ds. ?D e = Min (?D ` set ds)"
    proof -
      have "Min (?D ` set ds) \<in> ?D ` set ds" using ne by (intro Min_in) simp_all
      then show ?thesis by (auto simp: image_iff)
    qed
    show ?thesis
    proof (cases "?D d < b")
      case lt: True
      show ?thesis
      proof (cases "\<exists>e \<in> set ds. ?D e < ?D d")
        case True
        then have "Min (?D ` set ds) < ?D d" using lower by (meson le_less_trans)
        then show ?thesis using lt True by (simp add: Let_def Cons.IH M min_def) 
      next
        case False
        then have "?D d \<le> Min (?D ` set ds)" using attained by force
        then show ?thesis using lt False by (simp add: Let_def Cons.IH M min_def)
      qed
    next
      case ge: False
      show ?thesis
      proof (cases "\<exists>e \<in> set ds. ?D e < b")
        case True
        then have "Min (?D ` set ds) < b" using lower by (meson le_less_trans)
        then have "Min (?D ` set ds) < ?D d" using ge by simp
        then show ?thesis using ge True by (simp add: Let_def Cons.IH M min_def)
      next
        case False
        then show ?thesis using ge by (simp add: Let_def Cons.IH)
      qed
    qed
  qed
qed


lemma ShowDetailedDiagnostic_nearest:
  assumes "diagnostic_store s = Assigned store"
    and "structure_getitem store (current_buffer_name h) (fst (CurrentLineAndColumn h) + 1) =
           (ds, store1)"
    and "\<exists>d \<in> set ds. \<bar>snd (CurrentLineAndColumn h) + 1 - column_number d\<bar> < 999"
  shows "\<exists>d. find (\<lambda>d. \<bar>snd (CurrentLineAndColumn h) + 1 - column_number d\<bar> =
                    Min ((\<lambda>d. \<bar>snd (CurrentLineAndColumn h) + 1 - column_number d\<bar>) ` set ds)) ds
               = Some d
           \<and> ShowDetailedDiagnostic h s =
               Inr (EchoText (long_formatted_text d) (s\<lparr>diagnostic_store := Assigned store1\<rparr>))"
proof -
  let ?c = "snd (CurrentLineAndColumn h) + 1"
  let ?D = "\<lambda>d. \<bar>?c - column_number d\<bar>"
  let ?m = "Min (?D ` set ds)"
  have ne: "ds \<noteq> []" using assms(3) by auto
  then have "?m \<in> ?D ` set ds" by (intro Min_in) simp_all
  then have "find (\<lambda>d. ?D d = ?m) ds \<noteq> None" by (auto simp: find_None_iff image_iff)
  then obtain d where f: "find (\<lambda>d. ?D d = ?m) ds = Some d" by auto
  have cl: "closest_loop ?c ds (None, 999) = (Some d, ?m)"
    using closest_loop_find [of ?c ds None 999] assms(3) f by simp
  have "ShowDetailedDiagnostic h s =
      Inr (EchoText (long_formatted_text d) (s\<lparr>diagnostic_store := Assigned store1\<rparr>))"
    using ne by (simp add: ShowDetailedDiagnostic_def Let_def assms(1,2) cl)
  with f show ?thesis by blast
qed

lemma ShowDetailedDiagnostic_examples:
  "(\<exists>s'. ShowDetailedDiagnostic (ex_host\<lparr>CurrentLineAndColumn := (2, 5)\<rparr>) ex_indexed = Inr s'
         \<and> echoed s' = [''first''])
   \<and> (\<exists>s'. ShowDetailedDiagnostic (ex_host\<lparr>CurrentLineAndColumn := (2, 8)\<rparr>) ex_indexed = Inr s'
         \<and> echoed s' = [''second''])"
proof -
  have l: "fst (structure_getitem (DiagnosticsToDiagStructure (ex_diagnostics ''a.cpp'')) ''a.cpp'' 3) =
     [diag ''a.cpp'' 3 2 ''first'', diag ''a.cpp'' 3 10 ''second'']"
    by (simp add: DiagnosticsToDiagStructure_lookup ex_diagnostics_def diag_def)
  obtain st where g:
    "structure_getitem (DiagnosticsToDiagStructure (ex_diagnostics ''a.cpp'')) ''a.cpp'' 3 =
       ([diag ''a.cpp'' 3 2 ''first'', diag ''a.cpp'' 3 10 ''second''], st)"
    using l
    by (cases "structure_getitem (DiagnosticsToDiagStructure (ex_diagnostics ''a.cpp'')) ''a.cpp'' 3")
      simp
  have a: "\<exists>s'. ShowDetailedDiagnostic (ex_host\<lparr>CurrentLineAndColumn := (2, 5)\<rparr>) ex_indexed = Inr s'
         \<and> echoed s' = [''first'']"
    by (simp add: ShowDetailedDiagnostic_def Let_def ex_host_def ex_indexed_def g diag_def
        EchoText_def init_def)
  have b: "\<exists>s'. ShowDetailedDiagnostic (ex_host\<lparr>CurrentLineAndColumn := (2, 8)\<rparr>) ex_indexed = Inr s'
         \<and> echoed s' = [''second'']"
    by (simp add: ShowDetailedDiagnostic_def Let_def ex_host_def ex_indexed_def g diag_def
        EchoText_def init_def)
  show ?thesis using a b by blast
qed

text \<open>
  C3. The scan starts from the distance 999 and replaces the best diagnostic only on a
  strictly smaller distance. With the cursor at column 1 and the only diagnostic of the
  line at column 1001 the distance is 1000, no diagnostic is ever chosen, and reading
  the long-form text of the missing choice raises instead of displaying the text of the
  diagnostic.
\<close>

theorem ShowDetailedDiagnostic_far_raises:
  "fst (structure_getitem (DiagnosticsToDiagStructure (far_diagnostics ''a.cpp'')) ''a.cpp'' 1) =
     [diag ''a.cpp'' 1 1001 ''far'']
   \<and> ShowDetailedDiagnostic far_host (snd (GetDiagnosticsForCurrentFile far_host ex_pending)) =
       Inl AttributeError"
proof -
  have r: "DiagnosticsForCurrentFileReady far_host ex_pending"
    by (simp add: DiagnosticsForCurrentFileReady_def far_host_def ex_host_def ex_pending_def
        always_def)
  have l: "fst (structure_getitem (DiagnosticsToDiagStructure (far_diagnostics ''a.cpp'')) ''a.cpp'' 1) =
     [diag ''a.cpp'' 1 1001 ''far'']"
    by (simp add: DiagnosticsToDiagStructure_lookup far_diagnostics_def diag_def)
  obtain st where g:
    "structure_getitem (DiagnosticsToDiagStructure (far_diagnostics ''a.cpp'')) ''a.cpp'' 1 =
       ([diag ''a.cpp'' 1 1001 ''far''], st)"
    using l
    by (cases "structure_getitem (DiagnosticsToDiagStructure (far_diagnostics ''a.cpp'')) ''a.cpp'' 1")
      simp
  have h: "current_buffer_name far_host = ''a.cpp''" "CurrentLineAndColumn far_host = (0, 0)"
    "DiagnosticsForFile far_host = far_diagnostics"
    by (simp_all add: far_host_def ex_host_def)
  have "ShowDetailedDiagnostic far_host (snd (GetDiagnosticsForCurrentFile far_host ex_pending)) =
       Inl AttributeError"
    by (simp add: GetDiagnosticsForCurrentFile_ready [OF r] ShowDetailedDiagnostic_def Let_def
        h g diag_def)
  with l show ?thesis by simp
qed

section \<open>Properties of the holders\<close>

text \<open>
  After a build the two holders keep exactly the contents and the names of the batch
  just built, whatever they kept before.
\<close>

lemma GetUnsavedFilesVector_holders:
  "contents_holder (snd (GetUnsavedFilesVector h s)) = map uf_contents (fst (GetUnsavedFilesVector h s))
   \<and> filename_holder (snd (GetUnsavedFilesVector h s)) = map uf_filename (fst (GetUnsavedFilesVector h s))"
  by (simp add: GetUnsavedFilesVector_eq)

lemma OnFileReadyToParse_a:
  "OnFileReadyToParse ex_host_a init =
     init\<lparr>contents_holder := [uf_contents snapshot_a],
          filename_holder := [uf_filename snapshot_a],
          parse_future := Some (UpdateTranslationUnitAsync ''a.cpp'' [snapshot_a] [''-x'', ''c++'']),
          dispatched := [UpdateTranslationUnitAsync ''a.cpp'' [snapshot_a] [''-x'', ''c++'']]\<rparr>"
  by (simp add: OnFileReadyToParse_def GetUnsavedFilesVector_eq ex_host_a_def ex_host_def
      never_def ex_flags_def buffer_a_def ex_ft_def spec_qualifies_def spec_snapshot_def
      snapshot_a_def init_def Let_def)

lemma OnFileReadyToParse_b:
  "OnFileReadyToParse ex_host_b (OnFileReadyToParse ex_host_a init) =
     init\<lparr>contents_holder := [uf_contents snapshot_b],
          filename_holder := [uf_filename snapshot_b],
          parse_future := Some (UpdateTranslationUnitAsync ''b.cpp'' [snapshot_b] [''-x'', ''c++'']),
          dispatched := [UpdateTranslationUnitAsync ''a.cpp'' [snapshot_a] [''-x'', ''c++''],
                         UpdateTranslationUnitAsync ''b.cpp'' [snapshot_b] [''-x'', ''c++'']]\<rparr>"
  unfolding OnFileReadyToParse_a
  by (simp add: OnFileReadyToParse_def GetUnsavedFilesVector_eq ex_host_b_def ex_host_a_def
      ex_host_def updating_a_def ex_flags_def buffer_b_def ex_ft_def spec_qualifies_def
      spec_snapshot_def snapshot_b_def init_def Let_def)

text \<open>
  C2. The holders are what keeps the strings of a batch alive, and every build empties
  them first. A parse of \<^verbatim>\<open>a.cpp\<close> is dispatched with a batch whose contents and
  name are in the holders; while that parse is in flight and its result not ready, a
  parse of \<^verbatim>\<open>b.cpp\<close> is requested. After the second build both calls have been
  dispatched, and neither the contents nor the name of the first batch is in a holder
  any more.
\<close>

theorem holders_drop_batch_in_flight:
  "dispatched (OnFileReadyToParse ex_host_a init) =
     [UpdateTranslationUnitAsync ''a.cpp'' [snapshot_a] [''-x'', ''c++'']]
   \<and> contents_holder (OnFileReadyToParse ex_host_a init) = [uf_contents snapshot_a]
   \<and> filename_holder (OnFileReadyToParse ex_host_a init) = [uf_filename snapshot_a]
   \<and> UpdatingTranslationUnit ex_host_b ''a.cpp''
   \<and> \<not> ResultsReady ex_host_b (UpdateTranslationUnitAsync ''a.cpp'' [snapshot_a] [''-x'', ''c++''])
   \<and> dispatched (OnFileReadyToParse ex_host_b (OnFileReadyToParse ex_host_a init)) =
       [UpdateTranslationUnitAsync ''a.cpp'' [snapshot_a] [''-x'', ''c++''],
        UpdateTranslationUnitAsync ''b.cpp'' [snapshot_b] [''-x'', ''c++'']]
   \<and> contents_holder (OnFileReadyToParse ex_host_b (OnFileReadyToParse ex_host_a init)) =
       [uf_contents snapshot_b]
   \<and> filename_holder (OnFileReadyToParse ex_host_b (OnFileReadyToParse ex_host_a init)) =
       [uf_filename snapshot_b]
   \<and> uf_contents snapshot_a \<notin>
       set (contents_holder (OnFileReadyToParse ex_host_b (OnFileReadyToParse ex_host_a init)))
   \<and> uf_filename snapshot_a \<notin>
       set (filename_holder (OnFileReadyToParse ex_host_b (OnFileReadyToParse ex_host_a init)))"
proof -
  have u: "UpdatingTranslationUnit ex_host_b ''a.cpp''"
    by (simp add: ex_host_b_def ex_host_a_def ex_host_def updating_a_def)
  have n: "\<not> ResultsReady ex_host_b (UpdateTranslationUnitAsync ''a.cpp'' [snapshot_a] [''-x'', ''c++''])"
    by (simp add: ex_host_b_def ex_host_a_def ex_host_def never_def)
  have d: "uf_contents snapshot_a \<noteq> uf_contents snapshot_b"
    "uf_filename snapshot_a \<noteq> uf_filename snapshot_b"
    by (simp_all add: snapshot_a_def snapshot_b_def)
  have a: "dispatched (OnFileReadyToParse ex_host_a init) =
       [UpdateTranslationUnitAsync ''a.cpp'' [snapshot_a] [''-x'', ''c++'']]"
    "contents_holder (OnFileReadyToParse ex_host_a init) = [uf_contents snapshot_a]"
    "filename_holder (OnFileReadyToParse ex_host_a init) = [uf_filename snapshot_a]"
    by (simp_all add: OnFileReadyToParse_a)
  have b: "dispatched (OnFileReadyToParse ex_host_b (OnFileReadyToParse ex_host_a init)) =
       [UpdateTranslationUnitAsync ''a.cpp'' [snapshot_a] [''-x'', ''c++''],
        UpdateTranslationUnitAsync ''b.cpp'' [snapshot_b] [''-x'', ''c++'']]"
    "contents_holder (OnFileReadyToParse ex_host_b (OnFileReadyToParse ex_host_a init)) =
       [uf_contents snapshot_b]"
    "filename_holder (OnFileReadyToParse ex_host_b (OnFileReadyToParse ex_host_a init)) =
       [uf_filename snapshot_b]"
    by (simp_all add: OnFileReadyToParse_b)
  have c: "uf_contents snapshot_a \<notin>
       set (contents_holder (OnFileReadyToParse ex_host_b (OnFileReadyToParse ex_host_a init)))"
    "uf_filename snapshot_a \<notin>
       set (filename_holder (OnFileReadyToParse ex_host_b (OnFileReadyToParse ex_host_a init)))"
    using d by (simp_all add: OnFileReadyToParse_b)
  from a b c u n show ?thesis by blast
qed

end
